theory Spec2Isabelle
  imports Complex_Main "HOL-Library.Multiset" "HOL-Library.Sublist"
begin

section \<open>Data model (app/agent/state.py)\<close>

text \<open>
  The entities of \<^verbatim>\<open>state.py\<close> are Python \<^verbatim>\<open>TypedDict\<close>s. Each becomes a record with
  the declared keys, all present; field names carry a short prefix because several
  entities share key names (\<^verbatim>\<open>status\<close>, \<^verbatim>\<open>severity\<close>, \<^verbatim>\<open>description\<close>). With every
  key present, \<^verbatim>\<open>d.get(k, default)\<close> on an entity is the field itself and \<^verbatim>\<open>d[k]\<close> does
  not raise.

  Python \<^verbatim>\<open>float\<close> values are modelled as exact rationals: every finite float is a
  rational and comparisons with the integer thresholds of the code are exact, while
  float arithmetic is idealised (no binary rounding error; NaN and infinities are not
  represented).
\<close>

record Risk =
  r_id :: string
  r_category :: string
  r_severity :: string
  r_description :: string
  r_mitigation :: string
  r_score :: rat

record RenewalDate =
  rd_date :: string
  rd_description :: string
  rd_days_until :: int
  rd_urgency :: string
  rd_clause_reference :: "string option"

record Obligation =
  o_clause_id :: string
  o_requirement :: string
  o_party :: string
  o_status :: string
  o_deadline :: "string option"
  o_description :: string

record ComplianceItem =
  c_regulation :: string
  c_requirement :: string
  c_status :: string
  c_gap :: "string option"
  c_severity :: string

section \<open>Python helpers\<close>



text \<open>\<^verbatim>\<open>str(n)\<close> for an integer: its decimal digits, with a minus sign when negative.\<close>

definition digit_char :: "nat \<Rightarrow> char" where
  "digit_char d = ''0123456789'' ! d"

function str_nat :: "nat \<Rightarrow> string" where
  "str_nat n = (if n < 10 then [digit_char n] else str_nat (n div 10) @ [digit_char (n mod 10)])"
  by pat_completeness auto
termination
  by (relation "measure id") auto

declare str_nat.simps [simp del]

definition str_int :: "int \<Rightarrow> string" where
  "str_int i = (if i < 0 then CHR ''-'' # str_nat (nat (- i)) else str_nat (nat i))"

text \<open>An optional string inside an f-string: \<^verbatim>\<open>None\<close> prints as the word None.\<close>

definition str_opt :: "string option \<Rightarrow> string" where
  "str_opt s = (case s of None \<Rightarrow> ''None'' | Some t \<Rightarrow> t)"

section \<open>Risk scoring (app/agent/nodes/risk_assessment.py)\<close>






definition determine_risk_level :: "rat \<Rightarrow> string" where
  "determine_risk_level score =
     (if score \<ge> 76 then ''critical''
      else if score \<ge> 51 then ''high''
      else if score \<ge> 26 then ''medium''
      else ''low'')"

subsection \<open>The closed form of the specification\<close>




section \<open>Deadline evaluation (app/agent/nodes/compliance.py, extraction.py)\<close>

text \<open>
  One pass of the loop body of \<^verbatim>\<open>check_deadline_compliance\<close>: the item list built so
  far and the renewal date at hand.
\<close>

definition deadline_step :: "ComplianceItem list \<Rightarrow> RenewalDate \<Rightarrow> ComplianceItem list" where
  "deadline_step deadline_items renewal =
     (let days_until = rd_days_until renewal;
          description = rd_description renewal
      in if days_until < 0 then
           deadline_items @
             [\<lparr>c_regulation = ''Deadline Compliance'',
               c_requirement = ''Meet deadline: '' @ description,
               c_status = ''non_compliant'',
               c_gap = Some (''Deadline overdue by '' @ str_int \<bar>days_until\<bar> @ '' days''),
               c_severity = ''critical''\<rparr>]
         else if days_until \<le> 7 then
           deadline_items @
             [\<lparr>c_regulation = ''Deadline Compliance'',
               c_requirement = ''Meet deadline: '' @ description,
               c_status = ''partially_compliant'',
               c_gap = Some (''Deadline in '' @ str_int days_until @
                             '' days - immediate action required''),
               c_severity = ''critical''\<rparr>]
         else if days_until \<le> 30 then
           deadline_items @
             [\<lparr>c_regulation = ''Deadline Compliance'',
               c_requirement = ''Meet deadline: '' @ description,
               c_status = ''partially_compliant'',
               c_gap = Some (''Deadline approaching in '' @ str_int days_until @ '' days''),
               c_severity = ''high''\<rparr>]
         else deadline_items)"

definition check_deadline_compliance :: "RenewalDate list \<Rightarrow> ComplianceItem list" where
  "check_deadline_compliance renewal_dates = foldl deadline_step [] renewal_dates"

definition calculate_urgency :: "int \<Rightarrow> string" where
  "calculate_urgency days_until =
     (if days_until < 0 then ''critical''
      else if days_until \<le> 7 then ''critical''
      else if days_until \<le> 30 then ''high''
      else if days_until \<le> 90 then ''medium''
      else ''low'')"

text \<open>A renewal date a given number of days away, with the urgency the extractor assigns.\<close>

definition renewal_in :: "int \<Rightarrow> RenewalDate" where
  "renewal_in d =
     \<lparr>rd_date = ''2026-01-01T00:00:00'', rd_description = ''Contract renewal deadline'',
      rd_days_until = d, rd_urgency = calculate_urgency d,
      rd_clause_reference = Some ''Section 5.2''\<rparr>"

section \<open>Pipeline state and merge policy (app/agent/state.py)\<close>

text \<open>
  The lists of the state hold references to dict objects, and the review stage writes
  into those objects in place. The objects therefore live in a store, addressed by
  natural numbers, one component per entity kind; a list field of the state is a list of
  addresses. Two positions of a list, or two lists, may hold the same address. The list
  objects themselves are never written to by any stage, so they are values.
\<close>

type_synonym addr = nat

record store =
  risk_obj :: "addr \<Rightarrow> Risk"
  item_obj :: "addr \<Rightarrow> ComplianceItem"
  oblig_obj :: "addr \<Rightarrow> Obligation"

text \<open>
  \<^verbatim>\<open>HumanFeedback.modifications\<close> is an untyped \<^verbatim>\<open>Dict\<close> supplied by the user, so its
  keys are optional: \<open>None\<close> is a missing key. A value has the type of the field it
  overwrites. For \<^verbatim>\<open>mod.get("id")\<close>, \<^verbatim>\<open>mod.get("index")\<close> and \<^verbatim>\<open>mod.get("clause_id")\<close> a
  missing key and the value \<^verbatim>\<open>None\<close> are the same.
\<close>

record RiskMod =
  rm_id :: "string option"
  rm_severity :: "string option"
  rm_description :: "string option"
  rm_mitigation :: "string option"

record ItemMod =
  im_index :: "int option"
  im_status :: "string option"
  im_gap :: "string option option"

record ObligMod =
  om_clause_id :: "string option"
  om_status :: "string option"
  om_description :: "string option"

record Modifications =
  m_risks :: "RiskMod list option"
  m_compliance_items :: "ItemMod list option"
  m_obligations :: "ObligMod list option"
  m_notes :: "string option"

record HumanFeedback =
  hf_timestamp :: string
  hf_action :: string
  hf_comments :: "string option"
  hf_modifications :: "Modifications option"

text \<open>
  \<^verbatim>\<open>review_items\<close> is declared a list of strings; the risk stage puts strings there and
  the review stage puts the groups of its summary there.
\<close>

record ReviewGroup =
  rg_type :: string
  rg_priority :: string
  rg_count :: nat
  rg_description :: string
  rg_items :: "addr list"

datatype review_entry = ReviewText string | ReviewGroupEntry ReviewGroup

text \<open>
  \<^verbatim>\<open>DocumentVerificationState\<close>, with the keys that the functions modelled here read or
  write. Left out, being neither read nor written by them: \<^verbatim>\<open>document_file\<close>,
  \<^verbatim>\<open>user_id\<close>, \<^verbatim>\<open>session_id\<close>, \<^verbatim>\<open>raw_text\<close>, \<^verbatim>\<open>parsed_sections\<close>, \<^verbatim>\<open>document_metadata\<close>,
  \<^verbatim>\<open>verification_report\<close>, \<^verbatim>\<open>recommendations\<close>, \<^verbatim>\<open>created_at\<close>.
\<close>

record DocumentVerificationState =
  document_type :: string
  renewal_dates :: "RenewalDate list"
  obligations :: "addr list"
  compliance_items :: "addr list"
  risks :: "addr list"
  overall_risk_score :: rat
  risk_level :: string
  human_feedback :: "HumanFeedback option"
  requires_review :: bool
  review_items :: "review_entry list"
  current_step :: string
  progress_percentage :: int
  messages :: "string list"
  status :: string
  error_message :: "string option"
  updated_at :: string

text \<open>
  The partial update a stage returns: a dict holding some of the state's keys; \<open>None\<close> is
  a key the update does not hold.
\<close>

record StateUpdate =
  u_document_type :: "string option"
  u_renewal_dates :: "RenewalDate list option"
  u_obligations :: "addr list option"
  u_compliance_items :: "addr list option"
  u_risks :: "addr list option"
  u_overall_risk_score :: "rat option"
  u_risk_level :: "string option"
  u_human_feedback :: "HumanFeedback option"
  u_requires_review :: "bool option"
  u_review_items :: "review_entry list option"
  u_current_step :: "string option"
  u_progress_percentage :: "int option"
  u_messages :: "string list option"
  u_status :: "string option"
  u_error_message :: "string option"
  u_updated_at :: "string option"

text \<open>The empty dict \<^verbatim>\<open>{}\<close>.\<close>

definition empty_update :: StateUpdate where
  "empty_update =
     \<lparr>u_document_type = None, u_renewal_dates = None, u_obligations = None,
      u_compliance_items = None, u_risks = None, u_overall_risk_score = None,
      u_risk_level = None, u_human_feedback = None, u_requires_review = None,
      u_review_items = None, u_current_step = None, u_progress_percentage = None,
      u_messages = None, u_status = None, u_error_message = None, u_updated_at = None\<rparr>"

text \<open>
  The merge rule of a key: a plain annotation is overwritten by the update's value, a
  key annotated with \<^verbatim>\<open>operator.add\<close> gets the update's list appended.
\<close>

definition overwrite :: "'a \<Rightarrow> 'a option \<Rightarrow> 'a" where
  "overwrite old new = (case new of None \<Rightarrow> old | Some v \<Rightarrow> v)"

definition operator_add :: "'a list \<Rightarrow> 'a list option \<Rightarrow> 'a list" where
  "operator_add old new = (case new of None \<Rightarrow> old | Some vs \<Rightarrow> old @ vs)"

definition apply_update :: "DocumentVerificationState \<Rightarrow> StateUpdate \<Rightarrow> DocumentVerificationState" where
  "apply_update state u =
     \<lparr>document_type = overwrite (document_type state) (u_document_type u),
      renewal_dates = operator_add (renewal_dates state) (u_renewal_dates u),
      obligations = operator_add (obligations state) (u_obligations u),
      compliance_items = operator_add (compliance_items state) (u_compliance_items u),
      risks = operator_add (risks state) (u_risks u),
      overall_risk_score = overwrite (overall_risk_score state) (u_overall_risk_score u),
      risk_level = overwrite (risk_level state) (u_risk_level u),
      human_feedback =
        (case u_human_feedback u of None \<Rightarrow> human_feedback state | Some fb \<Rightarrow> Some fb),
      requires_review = overwrite (requires_review state) (u_requires_review u),
      review_items = operator_add (review_items state) (u_review_items u),
      current_step = overwrite (current_step state) (u_current_step u),
      progress_percentage = overwrite (progress_percentage state) (u_progress_percentage u),
      messages = operator_add (messages state) (u_messages u),
      status = overwrite (status state) (u_status u),
      error_message =
        (case u_error_message u of None \<Rightarrow> error_message state | Some e \<Rightarrow> Some e),
      updated_at = overwrite (updated_at state) (u_updated_at u)\<rparr>"

section \<open>The stage graph (app/agent/graph.py)\<close>

definition should_review :: "DocumentVerificationState \<Rightarrow> string" where
  "should_review state =
     (if requires_review state then ''review''
      else
        let risk_score = overall_risk_score state
        in if risk_score > 75 then ''review'' else ''skip'')"

text \<open>The wiring of \<^verbatim>\<open>create_verification_graph\<close>: entry point, plain edges, and the
  one conditional edge with its branch table.\<close>

definition END :: string where
  "END = ''__end__''"

definition entry_point :: string where
  "entry_point = ''ingestion''"

definition edges :: "(string \<times> string) list" where
  "edges =
     [(''ingestion'', ''classification''),
      (''classification'', ''extraction''),
      (''extraction'', ''compliance''),
      (''compliance'', ''risk_assessment''),
      (''hitl'', ''report_generation''),
      (''report_generation'', END)]"

definition conditional_source :: string where
  "conditional_source = ''risk_assessment''"

definition conditional_targets :: "(string \<times> string) list" where
  "conditional_targets = [(''review'', ''hitl''), (''skip'', ''report_generation'')]"

text \<open>The node that follows \<open>node\<close>, given the state after \<open>node\<close>'s update was merged.\<close>

definition next_node :: "string \<Rightarrow> DocumentVerificationState \<Rightarrow> string option" where
  "next_node node state =
     (if node = conditional_source then map_of conditional_targets (should_review state)
      else map_of edges node)"

text \<open>
  Running the compiled graph. The graph library is not part of the repository; what is
  modelled of it is what the wiring above relies on: the current node is called with the
  state, its update is merged key by key with the rules of \<^verbatim>\<open>state.py\<close>, and the run
  moves along the outgoing edge until it reaches \<^verbatim>\<open>END\<close>. A stage is a function from the
  store and the state to the store it leaves behind and the dict it returns
  (\<open>None\<close> when it returns Python's \<^verbatim>\<open>None\<close>, which the library rejects). The result
  lists the stages that were executed, in order. The fuel bounds the number of steps.
\<close>

type_synonym stage = "store \<Rightarrow> DocumentVerificationState \<Rightarrow> store \<times> StateUpdate option"

datatype outcome =
  Completed store DocumentVerificationState "string list"
| InvalidUpdate store DocumentVerificationState "string list"
| OutOfFuel

fun run_graph :: "(string \<Rightarrow> stage) \<Rightarrow> nat \<Rightarrow> string \<Rightarrow> store \<Rightarrow>
    DocumentVerificationState \<Rightarrow> string list \<Rightarrow> outcome" where
  "run_graph nodes 0 node h state executed = OutOfFuel"
| "run_graph nodes (Suc fuel) node h state executed =
     (if node = END then Completed h state executed
      else
        (case nodes node h state of
           (h', None) \<Rightarrow> InvalidUpdate h' state (executed @ [node])
         | (h', Some u) \<Rightarrow>
             (let state' = apply_update state u
              in case next_node node state' of
                   None \<Rightarrow> Completed h' state' (executed @ [node])
                 | Some node' \<Rightarrow> run_graph nodes fuel node' h' state' (executed @ [node]))))"

section \<open>The review stage (app/agent/nodes/hitl.py)\<close>

text \<open>
  Exceptions are values. The only ones the modelled code can raise are the
  \<^verbatim>\<open>TypeError\<close>s of \<^verbatim>\<open>apply_user_modifications\<close>; the string is what \<^verbatim>\<open>str(e)\<close> gives in
  CPython.
\<close>

datatype py_error = TypeError string

definition str_error :: "py_error \<Rightarrow> string" where
  "str_error e = (case e of TypeError msg \<Rightarrow> msg)"

definition quoted :: "string \<Rightarrow> string" where
  "quoted s = CHR 0x27 # s @ [CHR 0x27]"

text \<open>\<^verbatim>\<open>0 <= None\<close> and \<^verbatim>\<open>"risks" in None\<close>.\<close>

definition le_int_none_error :: py_error where
  "le_int_none_error =
     TypeError (quoted ''<='' @ '' not supported between instances of '' @ quoted ''int'' @
                '' and '' @ quoted ''NoneType'')"

definition in_none_error :: py_error where
  "in_none_error = TypeError (''argument of type '' @ quoted ''NoneType'' @ '' is not iterable'')"

subsection \<open>\<^verbatim>\<open>prepare_review_summary\<close>\<close>

record ReviewSummary =
  rs_overall_risk_score :: rat
  rs_risk_level :: string
  rs_items :: "ReviewGroup list"
  rs_requires_attention :: bool

definition prepare_review_summary :: "store \<Rightarrow> DocumentVerificationState \<Rightarrow> ReviewSummary" where
  "prepare_review_summary h state =
     (let critical_risks =
            filter (\<lambda>r. r_severity (risk_obj h r) = ''critical'' \<or>
                        r_severity (risk_obj h r) = ''high'') (risks state);
          review_items1 =
            (if critical_risks \<noteq> [] then
               [\<lparr>rg_type = ''risks'', rg_priority = ''critical'',
                 rg_count = length critical_risks,
                 rg_description =
                   str_nat (length critical_risks) @ '' critical/high risks identified'',
                 rg_items = take 5 critical_risks\<rparr>]
             else []);
          non_compliant =
            filter (\<lambda>c. c_status (item_obj h c) = ''non_compliant'') (compliance_items state);
          review_items2 =
            (if non_compliant \<noteq> [] then
               review_items1 @
               [\<lparr>rg_type = ''compliance'', rg_priority = ''high'',
                 rg_count = length non_compliant,
                 rg_description = str_nat (length non_compliant) @ '' compliance gaps found'',
                 rg_items = take 5 non_compliant\<rparr>]
             else review_items1);
          unclear_obligations =
            filter (\<lambda>ob. o_status (oblig_obj h ob) = ''unclear'') (obligations state);
          review_items3 =
            (if unclear_obligations \<noteq> [] then
               review_items2 @
               [\<lparr>rg_type = ''obligations'', rg_priority = ''medium'',
                 rg_count = length unclear_obligations,
                 rg_description =
                   str_nat (length unclear_obligations) @ '' obligations need clarification'',
                 rg_items = take 5 unclear_obligations\<rparr>]
             else review_items2)
      in \<lparr>rs_overall_risk_score = overall_risk_score state,
          rs_risk_level = risk_level state,
          rs_items = review_items3,
          rs_requires_attention = (length critical_risks > 0 \<or> length non_compliant > 0)\<rparr>)"

subsection \<open>\<^verbatim>\<open>apply_user_modifications\<close>\<close>

text \<open>The three guarded assignments on a matched risk, in the order of the source.\<close>

definition patch_risk :: "RiskMod \<Rightarrow> Risk \<Rightarrow> Risk" where
  "patch_risk md risk =
     (let risk1 = (case rm_severity md of Some v \<Rightarrow> risk\<lparr>r_severity := v\<rparr> | None \<Rightarrow> risk);
          risk2 = (case rm_description md of Some v \<Rightarrow> risk1\<lparr>r_description := v\<rparr>
                   | None \<Rightarrow> risk1)
      in (case rm_mitigation md of Some v \<Rightarrow> risk2\<lparr>r_mitigation := v\<rparr> | None \<Rightarrow> risk2))"

text \<open>
  The inner loop \<^verbatim>\<open>for risk in risks\<close> for one modification: every risk object whose id
  equals \<^verbatim>\<open>mod.get("id")\<close> is written to where it lives.
\<close>

fun risk_loop :: "RiskMod \<Rightarrow> addr list \<Rightarrow> store \<Rightarrow> store" where
  "risk_loop md [] h = h"
| "risk_loop md (risk # rest) h =
     risk_loop md rest
       (if Some (r_id (risk_obj h risk)) = rm_id md
        then h\<lparr>risk_obj := (risk_obj h)(risk := patch_risk md (risk_obj h risk))\<rparr>
        else h)"

text \<open>The outer loop \<^verbatim>\<open>for mod in modifications["risks"]\<close>.\<close>

fun risk_mods_loop :: "RiskMod list \<Rightarrow> addr list \<Rightarrow> store \<Rightarrow> store" where
  "risk_mods_loop [] risk_list h = h"
| "risk_mods_loop (md # mds) risk_list h = risk_mods_loop mds risk_list (risk_loop md risk_list h)"

definition patch_item :: "ItemMod \<Rightarrow> ComplianceItem \<Rightarrow> ComplianceItem" where
  "patch_item md item =
     (let item1 = (case im_status md of Some v \<Rightarrow> item\<lparr>c_status := v\<rparr> | None \<Rightarrow> item)
      in (case im_gap md of Some v \<Rightarrow> item1\<lparr>c_gap := v\<rparr> | None \<Rightarrow> item1))"

text \<open>
  The loop \<^verbatim>\<open>for mod in modifications["compliance_items"]\<close>. The chained comparison
  \<^verbatim>\<open>0 <= idx < len(compliance_items)\<close> raises when \<^verbatim>\<open>idx\<close> is \<^verbatim>\<open>None\<close>; the writes made
  before remain in the store.
\<close>

fun item_mods_loop :: "ItemMod list \<Rightarrow> addr list \<Rightarrow> store \<Rightarrow> store \<times> (py_error + unit)" where
  "item_mods_loop [] items h = (h, Inr ())"
| "item_mods_loop (md # mds) items h =
     (case im_index md of
        None \<Rightarrow> (h, Inl le_int_none_error)
      | Some idx \<Rightarrow>
          item_mods_loop mds items
            (if 0 \<le> idx \<and> idx < int (length items)
             then h\<lparr>item_obj := (item_obj h)
                      (items ! nat idx := patch_item md (item_obj h (items ! nat idx)))\<rparr>
             else h))"

definition patch_obligation :: "ObligMod \<Rightarrow> Obligation \<Rightarrow> Obligation" where
  "patch_obligation md obligation =
     (let obligation1 = (case om_status md of Some v \<Rightarrow> obligation\<lparr>o_status := v\<rparr>
                         | None \<Rightarrow> obligation)
      in (case om_description md of Some v \<Rightarrow> obligation1\<lparr>o_description := v\<rparr>
          | None \<Rightarrow> obligation1))"

fun obligation_loop :: "ObligMod \<Rightarrow> addr list \<Rightarrow> store \<Rightarrow> store" where
  "obligation_loop md [] h = h"
| "obligation_loop md (obligation # rest) h =
     obligation_loop md rest
       (if Some (o_clause_id (oblig_obj h obligation)) = om_clause_id md
        then h\<lparr>oblig_obj := (oblig_obj h)
                 (obligation := patch_obligation md (oblig_obj h obligation))\<rparr>
        else h)"

fun obligation_mods_loop :: "ObligMod list \<Rightarrow> addr list \<Rightarrow> store \<Rightarrow> store" where
  "obligation_mods_loop [] obligation_list h = h"
| "obligation_mods_loop (md # mds) obligation_list h =
     obligation_mods_loop mds obligation_list (obligation_loop md obligation_list h)"

text \<open>
  The function itself: the four \<^verbatim>\<open>if key in modifications\<close> blocks in order. It returns
  the store as the writes left it, and either the exception raised or the dict
  \<^verbatim>\<open>updated\<close>. A \<^verbatim>\<open>modifications\<close> that is \<^verbatim>\<open>None\<close> makes the first membership test raise.
\<close>

definition apply_user_modifications ::
    "store \<Rightarrow> DocumentVerificationState \<Rightarrow> Modifications option \<Rightarrow> store \<times> (py_error + StateUpdate)" where
  "apply_user_modifications h state modifications =
     (case modifications of
        None \<Rightarrow> (h, Inl in_none_error)
      | Some mods \<Rightarrow>
          (let updated = empty_update;
               (h1, updated1) =
                 (case m_risks mods of
                    None \<Rightarrow> (h, updated)
                  | Some rmods \<Rightarrow>
                      (risk_mods_loop rmods (risks state) h,
                       updated\<lparr>u_risks := Some (risks state)\<rparr>))
           in (case (case m_compliance_items mods of
                       None \<Rightarrow> (h1, Inr ())
                     | Some imods \<Rightarrow> item_mods_loop imods (compliance_items state) h1) of
                 (h2, Inl e) \<Rightarrow> (h2, Inl e)
               | (h2, Inr _) \<Rightarrow>
                   (let updated2 =
                          (case m_compliance_items mods of
                             None \<Rightarrow> updated1
                           | Some _ \<Rightarrow>
                               updated1\<lparr>u_compliance_items := Some (compliance_items state)\<rparr>);
                        (h3, updated3) =
                          (case m_obligations mods of
                             None \<Rightarrow> (h2, updated2)
                           | Some omods \<Rightarrow>
                               (obligation_mods_loop omods (obligations state) h2,
                                updated2\<lparr>u_obligations := Some (obligations state)\<rparr>));
                        updated4 =
                          (case m_notes mods of
                             None \<Rightarrow> updated3
                           | Some notes \<Rightarrow>
                               updated3\<lparr>u_messages := Some [''User note: '' @ notes]\<rparr>)
                    in (h3, Inr updated4)))))"

subsection \<open>\<^verbatim>\<open>hitl_node\<close>\<close>

text \<open>
  The body of the \<^verbatim>\<open>try\<close> block. The first argument stands for the clock reading
  \<^verbatim>\<open>datetime.utcnow().isoformat()\<close>. An action other than the three known ones falls
  through every branch, and the function returns \<^verbatim>\<open>None\<close>.
\<close>

definition hitl_try :: "string \<Rightarrow> store \<Rightarrow> DocumentVerificationState \<Rightarrow>
    store \<times> (py_error + StateUpdate option)" where
  "hitl_try now h state =
     (case human_feedback state of
        Some fb \<Rightarrow>
          (let action = hf_action fb;
               comments = hf_comments fb;
               modifications = hf_modifications fb
           in if action = ''approved'' then
                (h, Inr (Some (empty_update
                   \<lparr>u_requires_review := Some False,
                    u_current_step := Some ''hitl_approved'',
                    u_progress_percentage := Some 85,
                    u_messages := Some [''Review approved by user''],
                    u_updated_at := Some now\<rparr>)))
              else if action = ''revised'' then
                (case apply_user_modifications h state modifications of
                   (h', Inl e) \<Rightarrow> (h', Inl e)
                 | (h', Inr updated_state) \<Rightarrow>
                     (h', Inr (Some (updated_state
                        \<lparr>u_requires_review := Some False,
                         u_current_step := Some ''hitl_revised'',
                         u_progress_percentage := Some 85,
                         u_messages :=
                           Some [''Review revised with user feedback: '' @ str_opt comments],
                         u_updated_at := Some now\<rparr>))))
              else if action = ''rejected'' then
                (h, Inr (Some (empty_update
                   \<lparr>u_status := Some ''error'',
                    u_error_message := Some (''User rejected findings: '' @ str_opt comments),
                    u_current_step := Some ''hitl_rejected'',
                    u_updated_at := Some now\<rparr>)))
              else (h, Inr None))
      | None \<Rightarrow>
          (let review_summary = prepare_review_summary h state
           in (h, Inr (Some (empty_update
                 \<lparr>u_requires_review := Some True,
                  u_current_step := Some ''hitl_pending'',
                  u_progress_percentage := Some 80,
                  u_messages := Some [''Awaiting human review and approval''],
                  u_review_items := Some (map ReviewGroupEntry (rs_items review_summary)),
                  u_updated_at := Some now\<rparr>)))))"

text \<open>The stage with its \<^verbatim>\<open>except Exception\<close> handler.\<close>

definition hitl_node :: "string \<Rightarrow> stage" where
  "hitl_node now h state =
     (case hitl_try now h state of
        (h', Inr result) \<Rightarrow> (h', result)
      | (h', Inl e) \<Rightarrow>
          (h', Some (empty_update
             \<lparr>u_status := Some ''error'',
              u_error_message := Some (''HITL review failed: '' @ str_error e),
              u_current_step := Some ''hitl'',
              u_updated_at := Some now\<rparr>)))"

section \<open>An example session\<close>

text \<open>
  A store with two risks, two compliance items and one obligation, and a state as the
  risk stage leaves it: the lists refer to those objects, the overall score is 80 and
  \<^verbatim>\<open>requires_review\<close> is still false.
\<close>

definition example_risk_0 :: Risk where
  "example_risk_0 =
     \<lparr>r_id = ''compliance_risk_0'', r_category = ''compliance'', r_severity = ''high'',
      r_description = ''GDPR: No DPA found in contract documents'',
      r_mitigation = ''Engage data protection officer'', r_score = 70\<rparr>"

definition example_risk_1 :: Risk where
  "example_risk_1 =
     \<lparr>r_id = ''deadline_risk_0'', r_category = ''deadline'', r_severity = ''critical'',
      r_description = ''Deadline approaching: Insurance certificate renewal in 5 days'',
      r_mitigation = ''CRITICAL: Take immediate action'', r_score = 90\<rparr>"

definition example_item_0 :: ComplianceItem where
  "example_item_0 =
     \<lparr>c_regulation = ''GDPR'', c_requirement = ''Data Processing Agreement required'',
      c_status = ''non_compliant'', c_gap = Some ''No DPA found in contract documents'',
      c_severity = ''high''\<rparr>"

definition example_item_1 :: ComplianceItem where
  "example_item_1 =
     \<lparr>c_regulation = ''SOC2 Type II'', c_requirement = ''Current SOC2 certification'',
      c_status = ''compliant'', c_gap = None, c_severity = ''low''\<rparr>"

definition example_obligation_0 :: Obligation where
  "example_obligation_0 =
     \<lparr>o_clause_id = ''6.1'', o_requirement = ''Compliance with data protection regulations'',
      o_party = ''Both Parties'', o_status = ''unclear'', o_deadline = None,
      o_description = ''Comply with GDPR and applicable data protection laws''\<rparr>"

definition example_store :: store where
  "example_store =
     \<lparr>risk_obj = (\<lambda>_. example_risk_0)(Suc 0 := example_risk_1),
      item_obj = (\<lambda>_. example_item_0)(Suc 0 := example_item_1),
      oblig_obj = (\<lambda>_. example_obligation_0)\<rparr>"

definition example_state :: DocumentVerificationState where
  "example_state =
     \<lparr>document_type = ''contract'', renewal_dates = [renewal_in 5],
      obligations = [0], compliance_items = [0, Suc 0], risks = [0, Suc 0],
      overall_risk_score = 80, risk_level = ''critical'',
      human_feedback = None, requires_review = False, review_items = [],
      current_step = ''risk_assessment'', progress_percentage = 75,
      messages = [''Document uploaded successfully''],
      status = ''processing'', error_message = None,
      updated_at = ''2026-01-01T00:00:00''\<rparr>"

text \<open>Feedback of a user, by action, comment and modifications.\<close>

definition feedback :: "string \<Rightarrow> string \<Rightarrow> Modifications option \<Rightarrow> HumanFeedback" where
  "feedback action comment mods =
     \<lparr>hf_timestamp = ''2026-01-02T00:00:00'', hf_action = action,
      hf_comments = Some comment, hf_modifications = mods\<rparr>"

definition no_modifications :: Modifications where
  "no_modifications =
     \<lparr>m_risks = None, m_compliance_items = None, m_obligations = None, m_notes = None\<rparr>"

text \<open>
  A revised resume whose modifications patch compliance item 1 and then hold an entry
  without an index.
\<close>

definition missing_index_mods :: Modifications where
  "missing_index_mods =
     no_modifications
       \<lparr>m_compliance_items :=
          Some [\<lparr>im_index = Some 1, im_status = Some ''non_compliant'', im_gap = None\<rparr>,
                \<lparr>im_index = None, im_status = Some ''compliant'', im_gap = None\<rparr>]\<rparr>"

definition missing_index_state :: DocumentVerificationState where
  "missing_index_state =
     example_state
       \<lparr>human_feedback := Some (feedback ''revised'' ''see notes'' (Some missing_index_mods))\<rparr>"

text \<open>A risk modification naming an id that no risk of the example session has.\<close>

definition unmatched_mod :: RiskMod where
  "unmatched_mod =
     \<lparr>rm_id = Some ''compliance_risk_7'', rm_severity = Some ''low'',
      rm_description = None, rm_mitigation = None\<rparr>"


definition rejected_state :: DocumentVerificationState where
  "rejected_state =
     example_state\<lparr>human_feedback := Some (feedback ''rejected'' ''wrong document'' None)\<rparr>"

text \<open>A stage that returns the empty dict, standing for any stage that returns a dict.\<close>

definition idle_stage :: stage where
  "idle_stage h state = (h, Some empty_update)"

section \<open>Properties of the risk scorer\<close>
















text \<open>
  C6. \<^verbatim>\<open>determine_risk_level\<close> maps scores of 76 and above to critical, 51 to 75 to high,
  26 to 50 to medium and scores below 26 to low; the boundaries are closed at the lower
  end: 76 is critical, 75 and 51 are high, 50 and 26 are medium, 25 is low.
\<close>

theorem determine_risk_level_bands:
  "(76 \<le> score \<longrightarrow> determine_risk_level score = ''critical'') \<and>
   (51 \<le> score \<and> score \<le> 75 \<longrightarrow> determine_risk_level score = ''high'') \<and>
   (26 \<le> score \<and> score \<le> 50 \<longrightarrow> determine_risk_level score = ''medium'') \<and>
   (score < 26 \<longrightarrow> determine_risk_level score = ''low'') \<and>
   determine_risk_level 76 = ''critical'' \<and>
   determine_risk_level 75 = ''high'' \<and>
   determine_risk_level 51 = ''high'' \<and>
   determine_risk_level 50 = ''medium'' \<and>
   determine_risk_level 26 = ''medium'' \<and>
   determine_risk_level 25 = ''low''"
  by (simp add: determine_risk_level_def)

theorem determine_risk_level_bands_witness:
  "(76 \<le> (80::rat) \<and> determine_risk_level 80 = ''critical'') \<and>
   ((51::rat) \<le> 60 \<and> (60::rat) \<le> 75 \<and> determine_risk_level 60 = ''high'') \<and>
   ((26::rat) \<le> 30 \<and> (30::rat) \<le> 50 \<and> determine_risk_level 30 = ''medium'') \<and>
   ((10::rat) < 26 \<and> determine_risk_level 10 = ''low'')"
  using determine_risk_level_bands [of 80] determine_risk_level_bands [of 60]
    determine_risk_level_bands [of 30] determine_risk_level_bands [of 10]
  by simp




section \<open>Properties of the deadline evaluation\<close>


lemma deadline_step_append:
  "deadline_step acc renewal = acc @ deadline_step [] renewal"
  by (simp add: deadline_step_def Let_def)

lemma foldl_deadline_step:
  "foldl deadline_step acc rds = acc @ concat (map (deadline_step []) rds)"
proof (induction rds arbitrary: acc)
  case Nil
  then show ?case by simp
next
  case (Cons rd rds)
  show ?case
    using deadline_step_append [of acc rd] by (simp add: Cons.IH)
qed

lemma check_deadline_compliance_each:
  "check_deadline_compliance rds = concat (map (\<lambda>rd. check_deadline_compliance [rd]) rds)"
  by (simp add: check_deadline_compliance_def foldl_deadline_step)



section \<open>Properties of the stage graph\<close>

text \<open>
  C5. At the risk_assessment node the conditional edge leads to the review gate (hitl)
  if and only if \<^verbatim>\<open>requires_review\<close> is true or \<^verbatim>\<open>overall_risk_score\<close> exceeds 75, and to
  report generation otherwise; with \<^verbatim>\<open>requires_review\<close> false and a score of 80 it leads
  to the review gate.
\<close>

theorem review_branch:
  "(next_node ''risk_assessment'' state = Some ''hitl'' \<longleftrightarrow>
      requires_review state \<or> 75 < overall_risk_score state) \<and>
   (next_node ''risk_assessment'' state = Some ''report_generation'' \<longleftrightarrow>
      \<not> (requires_review state \<or> 75 < overall_risk_score state)) \<and>
   (\<not> requires_review state \<and> overall_risk_score state = 80 \<longrightarrow>
      next_node ''risk_assessment'' state = Some ''hitl'')"
  by (simp add: next_node_def conditional_source_def conditional_targets_def
      should_review_def Let_def)

theorem review_branch_witness:
  "\<not> requires_review example_state \<and> overall_risk_score example_state = 80 \<and>
   next_node ''risk_assessment'' example_state = Some ''hitl'' \<and>
   \<not> requires_review (example_state\<lparr>overall_risk_score := 75\<rparr>) \<and>
   \<not> 75 < overall_risk_score (example_state\<lparr>overall_risk_score := 75\<rparr>) \<and>
   next_node ''risk_assessment'' (example_state\<lparr>overall_risk_score := 75\<rparr>) =
     Some ''report_generation''"
proof -
  have h: "\<not> requires_review example_state \<and> overall_risk_score example_state = 80"
    by (simp add: example_state_def)
  have g: "\<not> (requires_review (example_state\<lparr>overall_risk_score := 75\<rparr>) \<or>
               75 < overall_risk_score (example_state\<lparr>overall_risk_score := 75\<rparr>))"
    by (simp add: example_state_def)
  note a = review_branch [of example_state, THEN conjunct2, THEN conjunct2, THEN mp, OF h]
  note b = review_branch [of "example_state\<lparr>overall_risk_score := 75\<rparr>", THEN conjunct2,
      THEN conjunct1, THEN iffD2, OF g]
  show ?thesis using h g a b by simp
qed

section \<open>Properties of the review stage\<close>

lemma hitl_pending:
  assumes "human_feedback state = None"
  shows "hitl_node now h state =
     (h, Some (empty_update
         \<lparr>u_requires_review := Some True,
          u_current_step := Some ''hitl_pending'',
          u_progress_percentage := Some 80,
          u_messages := Some [''Awaiting human review and approval''],
          u_review_items := Some (map ReviewGroupEntry (rs_items (prepare_review_summary h state))),
          u_updated_at := Some now\<rparr>))"
  using assms by (simp add: hitl_node_def hitl_try_def)

lemma item_mods_loop_raises:
  "\<exists>md\<in>set imods. im_index md = None \<Longrightarrow>
   snd (item_mods_loop imods items h) = Inl le_int_none_error"
proof (induction imods arbitrary: h)
  case Nil
  then show ?case by simp
next
  case (Cons md mds)
  show ?case
  proof (cases "im_index md")
    case None
    then show ?thesis by simp
  next
    case (Some idx)
    then have "\<exists>md\<in>set mds. im_index md = None" using Cons.prems by auto
    then show ?thesis using Some by (simp add: Cons.IH)
  qed
qed

lemma apply_user_modifications_raises:
  assumes "m_compliance_items mods = Some imods" and "\<exists>md\<in>set imods. im_index md = None"
  shows "snd (apply_user_modifications h state (Some mods)) = Inl le_int_none_error"
proof -
  obtain h1 where h1: "h1 = (case m_risks mods of None \<Rightarrow> h
      | Some rmods \<Rightarrow> risk_mods_loop rmods (risks state) h)" by simp
  obtain h2 r where l: "item_mods_loop imods (compliance_items state) h1 = (h2, r)"
    by fastforce
  have "r = Inl le_int_none_error"
    using item_mods_loop_raises [OF assms(2), of "compliance_items state" h1] l by simp
  then show ?thesis
    using assms(1) l h1
    by (simp add: apply_user_modifications_def Let_def split: option.splits)
qed

lemma hitl_missing_index:
  assumes "human_feedback state = Some fb" and "hf_action fb = ''revised''"
    and "hf_modifications fb = Some mods"
    and "m_compliance_items mods = Some imods" and "\<exists>md\<in>set imods. im_index md = None"
  shows "\<exists>h'. hitl_node now h state =
     (h', Some (empty_update
             \<lparr>u_status := Some ''error'',
              u_error_message := Some (''HITL review failed: '' @ str_error le_int_none_error),
              u_current_step := Some ''hitl'',
              u_updated_at := Some now\<rparr>))"
proof -
  obtain h' r where a: "apply_user_modifications h state (Some mods) = (h', r)" by fastforce
  have "r = Inl le_int_none_error"
    using apply_user_modifications_raises [OF assms(4,5), of h state] a by simp
  then show ?thesis
    using assms(1,2,3) a by (simp add: hitl_node_def hitl_try_def)
qed

text \<open>
  C3 (as amended). For every state in which the review gate is entered with no
  \<^verbatim>\<open>human_feedback\<close> present, the partial update returned by the hitl stage sets
  \<^verbatim>\<open>requires_review\<close> to true, with \<^verbatim>\<open>current_step\<close> \<^verbatim>\<open>hitl_pending\<close> and progress 80. It
  holds no \<^verbatim>\<open>status\<close> key, so after the merge the state's status is what it was.
\<close>

theorem hitl_pending_update:
  "human_feedback state = None \<longrightarrow>
     (\<exists>u. hitl_node now h state = (h, Some u) \<and>
        u_requires_review u = Some True \<and>
        u_current_step u = Some ''hitl_pending'' \<and>
        u_progress_percentage u = Some 80 \<and>
        u_status u = None \<and>
        requires_review (apply_update state u) \<and>
        status (apply_update state u) = status state)"
  by (simp add: hitl_pending empty_update_def apply_update_def overwrite_def)

theorem hitl_pending_update_witness:
  "human_feedback example_state = None \<and>
   (\<exists>u. hitl_node ''2026-01-03T00:00:00'' example_store example_state =
          (example_store, Some u) \<and>
      u_requires_review u = Some True \<and>
      u_current_step u = Some ''hitl_pending'' \<and>
      u_progress_percentage u = Some 80 \<and>
      u_status u = None \<and>
      requires_review (apply_update example_state u) \<and>
      status (apply_update example_state u) = status example_state)"
proof -
  have h: "human_feedback example_state = None" by (simp add: example_state_def)
  show ?thesis
    by (rule conjI [OF h hitl_pending_update [of example_state "''2026-01-03T00:00:00''"
          example_store, THEN mp, OF h]])
qed

text \<open>
  C3 as stated fails: entered without feedback, the stage returns a dict that sets
  \<^verbatim>\<open>requires_review\<close> but holds no \<^verbatim>\<open>status\<close> key, so status is not set to
  \<^verbatim>\<open>review_required\<close>; the merged state still has status \<^verbatim>\<open>processing\<close>.
\<close>

theorem hitl_pending_status_counterexample:
  "human_feedback example_state = None \<and>
   map_option u_requires_review
     (snd (hitl_node ''2026-01-03T00:00:00'' example_store example_state)) = Some (Some True) \<and>
   map_option u_status
     (snd (hitl_node ''2026-01-03T00:00:00'' example_store example_state)) = Some None \<and>
   map_option (\<lambda>u. status (apply_update example_state u))
     (snd (hitl_node ''2026-01-03T00:00:00'' example_store example_state)) =
     Some ''processing''"
proof -
  have h: "human_feedback example_state = None" by (simp add: example_state_def)
  have s: "status example_state = ''processing''" by (simp add: example_state_def)
  show ?thesis
    using h s
    by (simp add: hitl_pending [OF h] empty_update_def apply_update_def overwrite_def)
qed

text \<open>
  C10. For every resume with action \<^verbatim>\<open>revised\<close> whose modifications hold a
  \<^verbatim>\<open>compliance_items\<close> entry without an \<^verbatim>\<open>index\<close>, the hitl stage returns a partial update
  with status \<^verbatim>\<open>error\<close>: the bounds comparison raises, and the handler of the stage
  turns the exception into the error update.
\<close>

theorem hitl_missing_index_is_error:
  assumes "human_feedback state = Some fb" and "hf_action fb = ''revised''"
    and "hf_modifications fb = Some mods"
    and "m_compliance_items mods = Some imods"
    and "\<exists>md\<in>set imods. im_index md = None"
  shows "\<exists>h' u. hitl_node now h state = (h', Some u) \<and>
           u_status u = Some ''error'' \<and>
           u_error_message u = Some (''HITL review failed: '' @ str_error le_int_none_error) \<and>
           u_current_step u = Some ''hitl''"
proof -
  from hitl_missing_index [OF assms, of now h]
  obtain h' where "hitl_node now h state =
     (h', Some (empty_update
             \<lparr>u_status := Some ''error'',
              u_error_message := Some (''HITL review failed: '' @ str_error le_int_none_error),
              u_current_step := Some ''hitl'',
              u_updated_at := Some now\<rparr>))" by blast
  then show ?thesis by simp
qed

theorem hitl_missing_index_is_error_witness:
  "human_feedback missing_index_state =
     Some (feedback ''revised'' ''see notes'' (Some missing_index_mods)) \<and>
   hf_action (feedback ''revised'' ''see notes'' (Some missing_index_mods)) = ''revised'' \<and>
   hf_modifications (feedback ''revised'' ''see notes'' (Some missing_index_mods)) =
     Some missing_index_mods \<and>
   (\<exists>imods. m_compliance_items missing_index_mods = Some imods \<and>
      (\<exists>md\<in>set imods. im_index md = None)) \<and>
   (\<exists>h' u. hitl_node ''2026-01-03T00:00:00'' example_store missing_index_state = (h', Some u) \<and>
      u_status u = Some ''error'' \<and>
      u_error_message u = Some (''HITL review failed: '' @ str_error le_int_none_error) \<and>
      u_current_step u = Some ''hitl'')"
proof -
  let ?fb = "feedback ''revised'' ''see notes'' (Some missing_index_mods)"
  let ?imods = "[\<lparr>im_index = Some 1, im_status = Some ''non_compliant'', im_gap = None\<rparr>,
                 \<lparr>im_index = None, im_status = Some ''compliant'', im_gap = None\<rparr>]"
  have a: "human_feedback missing_index_state = Some ?fb"
    by (simp add: missing_index_state_def)
  have b: "hf_action ?fb = ''revised''" by (simp add: feedback_def)
  have c: "hf_modifications ?fb = Some missing_index_mods" by (simp add: feedback_def)
  have d: "m_compliance_items missing_index_mods = Some ?imods"
    by (simp add: missing_index_mods_def no_modifications_def)
  have e: "\<exists>md\<in>set ?imods. im_index md = None" by simp
  note r = hitl_missing_index_is_error [OF a b c d e, of "''2026-01-03T00:00:00''" example_store]
  have de: "\<exists>imods. m_compliance_items missing_index_mods = Some imods \<and>
      (\<exists>md\<in>set imods. im_index md = None)"
    using d e by blast
  show ?thesis
    by (rule conjI [OF a conjI [OF b conjI [OF c conjI [OF de r]]]])
qed

section \<open>What the review stage writes to the store\<close>

lemma patch_risk_keeps:
  "r_id (patch_risk md r) = r_id r \<and> r_category (patch_risk md r) = r_category r \<and>
   r_score (patch_risk md r) = r_score r"
  by (simp add: patch_risk_def Let_def split: option.splits)

lemma patch_item_keeps:
  "c_regulation (patch_item md c) = c_regulation c \<and>
   c_requirement (patch_item md c) = c_requirement c \<and>
   c_severity (patch_item md c) = c_severity c"
  by (simp add: patch_item_def Let_def split: option.splits)

lemma patch_obligation_keeps:
  "o_clause_id (patch_obligation md ob) = o_clause_id ob \<and>
   o_requirement (patch_obligation md ob) = o_requirement ob \<and>
   o_party (patch_obligation md ob) = o_party ob \<and>
   o_deadline (patch_obligation md ob) = o_deadline ob"
  by (simp add: patch_obligation_def Let_def split: option.splits)


lemma risk_loop_keeps:
  "r_id (risk_obj (risk_loop md rl h) a) = r_id (risk_obj h a) \<and>
   r_category (risk_obj (risk_loop md rl h) a) = r_category (risk_obj h a) \<and>
   r_score (risk_obj (risk_loop md rl h) a) = r_score (risk_obj h a)"
  by (induction rl arbitrary: h) (simp_all add: patch_risk_keeps)


lemma risk_loop_unmatched:
  "\<forall>a\<in>set rl. rm_id md \<noteq> Some (r_id (risk_obj h a)) \<Longrightarrow> risk_loop md rl h = h"
  by (induction rl) auto


lemma risk_mods_loop_keeps:
  "r_id (risk_obj (risk_mods_loop mds rl h) a) = r_id (risk_obj h a) \<and>
   r_category (risk_obj (risk_mods_loop mds rl h) a) = r_category (risk_obj h a) \<and>
   r_score (risk_obj (risk_mods_loop mds rl h) a) = r_score (risk_obj h a)"
  by (induction mds arbitrary: h) (simp_all add: risk_loop_keeps)


lemma risk_mods_loop_append:
  "risk_mods_loop (ms1 @ ms2) rl h = risk_mods_loop ms2 rl (risk_mods_loop ms1 rl h)"
  by (induction ms1 arbitrary: h) simp_all

lemma risk_mods_loop_drop_unmatched:
  assumes "\<forall>a\<in>set rl. rm_id md \<noteq> Some (r_id (risk_obj h a))"
  shows "risk_mods_loop (ms1 @ md # ms2) rl h = risk_mods_loop (ms1 @ ms2) rl h"
proof -
  let ?h1 = "risk_mods_loop ms1 rl h"
  have "\<forall>a\<in>set rl. rm_id md \<noteq> Some (r_id (risk_obj ?h1 a))"
    using assms by (simp add: risk_mods_loop_keeps)
  then have "risk_loop md rl ?h1 = ?h1" by (rule risk_loop_unmatched)
  then show ?thesis by (simp add: risk_mods_loop_append)
qed


lemma obligation_loop_keeps:
  "o_clause_id (oblig_obj (obligation_loop md ol h) a) = o_clause_id (oblig_obj h a) \<and>
   o_requirement (oblig_obj (obligation_loop md ol h) a) = o_requirement (oblig_obj h a) \<and>
   o_party (oblig_obj (obligation_loop md ol h) a) = o_party (oblig_obj h a) \<and>
   o_deadline (oblig_obj (obligation_loop md ol h) a) = o_deadline (oblig_obj h a)"
  by (induction ol arbitrary: h) (simp_all add: patch_obligation_keeps)



lemma obligation_mods_loop_keeps:
  "o_clause_id (oblig_obj (obligation_mods_loop mds ol h) a) = o_clause_id (oblig_obj h a) \<and>
   o_requirement (oblig_obj (obligation_mods_loop mds ol h) a) = o_requirement (oblig_obj h a) \<and>
   o_party (oblig_obj (obligation_mods_loop mds ol h) a) = o_party (oblig_obj h a) \<and>
   o_deadline (oblig_obj (obligation_mods_loop mds ol h) a) = o_deadline (oblig_obj h a)"
  by (induction mds arbitrary: h) (simp_all add: obligation_loop_keeps)



lemma item_mods_loop_keeps:
  "c_regulation (item_obj (fst (item_mods_loop mds items h)) a) = c_regulation (item_obj h a) \<and>
   c_requirement (item_obj (fst (item_mods_loop mds items h)) a) = c_requirement (item_obj h a) \<and>
   c_severity (item_obj (fst (item_mods_loop mds items h)) a) = c_severity (item_obj h a)"
  by (induction mds arbitrary: h) (simp_all add: patch_item_keeps split: option.splits)

lemma item_mods_loop_frame:
  "\<forall>md\<in>set mds. \<forall>i. im_index md = Some i \<longrightarrow> 0 \<le> i \<longrightarrow> i < int (length items) \<longrightarrow>
      items ! nat i \<noteq> a \<Longrightarrow>
   item_obj (fst (item_mods_loop mds items h)) a = item_obj h a"
  by (induction mds arbitrary: h) (auto split: option.splits)

lemma item_mods_loop_frame_list:
  assumes "a \<notin> set items"
  shows "item_obj (fst (item_mods_loop mds items h)) a = item_obj h a"
proof (rule item_mods_loop_frame, intro ballI allI impI)
  fix md i
  assume "0 \<le> i" "i < int (length items)"
  then have "items ! nat i \<in> set items" by simp
  then show "items ! nat i \<noteq> a" using assms by auto
qed










lemma aum_drop_unmatched:
  assumes "\<forall>a\<in>set (risks state). rm_id md \<noteq> Some (r_id (risk_obj h a))"
  shows "apply_user_modifications h state (Some (mods\<lparr>m_risks := Some (ms1 @ md # ms2)\<rparr>)) =
         apply_user_modifications h state (Some (mods\<lparr>m_risks := Some (ms1 @ ms2)\<rparr>))"
  using risk_mods_loop_drop_unmatched [OF assms, of ms1 ms2]
  by (simp add: apply_user_modifications_def)

lemma aum_state_cong:
  assumes "risks s1 = risks s2" and "compliance_items s1 = compliance_items s2"
    and "obligations s1 = obligations s2"
  shows "apply_user_modifications h s1 m = apply_user_modifications h s2 m"
  unfolding apply_user_modifications_def assms ..

lemma hitl_drop_unmatched:
  assumes "\<forall>a\<in>set (risks state). rm_id md \<noteq> Some (r_id (risk_obj h a))"
    and "hf_action fb = ''revised''"
  shows "hitl_node now h
           (state\<lparr>human_feedback :=
              Some (fb\<lparr>hf_modifications := Some (mods\<lparr>m_risks := Some (ms1 @ md # ms2)\<rparr>)\<rparr>)\<rparr>) =
         hitl_node now h
           (state\<lparr>human_feedback :=
              Some (fb\<lparr>hf_modifications := Some (mods\<lparr>m_risks := Some (ms1 @ ms2)\<rparr>)\<rparr>)\<rparr>)"
proof -
  let ?s1 = "state\<lparr>human_feedback :=
              Some (fb\<lparr>hf_modifications := Some (mods\<lparr>m_risks := Some (ms1 @ md # ms2)\<rparr>)\<rparr>)\<rparr>"
  let ?s2 = "state\<lparr>human_feedback :=
              Some (fb\<lparr>hf_modifications := Some (mods\<lparr>m_risks := Some (ms1 @ ms2)\<rparr>)\<rparr>)\<rparr>"
  have a1: "\<forall>a\<in>set (risks ?s1). rm_id md \<noteq> Some (r_id (risk_obj h a))" using assms(1) by simp
  have e: "apply_user_modifications h ?s1 (Some (mods\<lparr>m_risks := Some (ms1 @ md # ms2)\<rparr>)) =
           apply_user_modifications h ?s1 (Some (mods\<lparr>m_risks := Some (ms1 @ ms2)\<rparr>))"
    by (rule aum_drop_unmatched [OF a1])
  have f: "apply_user_modifications h ?s1 (Some (mods\<lparr>m_risks := Some (ms1 @ ms2)\<rparr>)) =
           apply_user_modifications h ?s2 (Some (mods\<lparr>m_risks := Some (ms1 @ ms2)\<rparr>))"
    by (rule aum_state_cong) simp_all
  show ?thesis using assms(2) e f by (simp add: hitl_node_def hitl_try_def)
qed

lemma hitl_only_unmatched:
  assumes "\<forall>a\<in>set (risks state). rm_id md \<noteq> Some (r_id (risk_obj h a))"
    and "human_feedback state = Some fb" and "hf_action fb = ''revised''"
    and "hf_modifications fb = Some (no_modifications\<lparr>m_risks := Some [md]\<rparr>)"
  shows "\<exists>u. hitl_node now h state = (h, Some u) \<and> u_status u = None \<and>
             u_error_message u = None \<and> u_current_step u = Some ''hitl_revised''"
  using assms risk_loop_unmatched [OF assms(1)]
  by (simp add: hitl_node_def hitl_try_def apply_user_modifications_def no_modifications_def
      empty_update_def)

text \<open>
  C8. On a resume with action \<^verbatim>\<open>revised\<close>, a modification entry that targets a risk id
  not present in the current risk list leaves the risk list unchanged and produces no
  error: the store is the same after the entry's pass over the risks; the stage returns
  what it returns without the entry; and when the entry is the only modification the
  stage returns the store as it was and an update without status or error message.
\<close>

theorem unmatched_risk_modification_ignored:
  assumes "\<forall>a\<in>set (risks state). rm_id md \<noteq> Some (r_id (risk_obj h a))"
  shows "risk_loop md (risks state) h = h \<and>
    (hf_action fb = ''revised'' \<longrightarrow>
       hitl_node now h
         (state\<lparr>human_feedback :=
            Some (fb\<lparr>hf_modifications := Some (mods\<lparr>m_risks := Some (ms1 @ md # ms2)\<rparr>)\<rparr>)\<rparr>) =
       hitl_node now h
         (state\<lparr>human_feedback :=
            Some (fb\<lparr>hf_modifications := Some (mods\<lparr>m_risks := Some (ms1 @ ms2)\<rparr>)\<rparr>)\<rparr>)) \<and>
    (hf_action fb = ''revised'' \<longrightarrow>
       (\<exists>u. hitl_node now h
               (state\<lparr>human_feedback :=
                  Some (fb\<lparr>hf_modifications :=
                    Some (no_modifications\<lparr>m_risks := Some [md]\<rparr>)\<rparr>)\<rparr>) = (h, Some u) \<and>
            u_status u = None \<and> u_error_message u = None \<and>
            u_current_step u = Some ''hitl_revised''))"
proof -
  have a: "risk_loop md (risks state) h = h"
    using assms by (rule risk_loop_unmatched)
  have b: "hf_action fb = ''revised'' \<Longrightarrow>
       hitl_node now h
         (state\<lparr>human_feedback :=
            Some (fb\<lparr>hf_modifications := Some (mods\<lparr>m_risks := Some (ms1 @ md # ms2)\<rparr>)\<rparr>)\<rparr>) =
       hitl_node now h
         (state\<lparr>human_feedback :=
            Some (fb\<lparr>hf_modifications := Some (mods\<lparr>m_risks := Some (ms1 @ ms2)\<rparr>)\<rparr>)\<rparr>)"
    using assms by (rule hitl_drop_unmatched)
  have c: "hf_action fb = ''revised'' \<Longrightarrow>
       (\<exists>u. hitl_node now h
               (state\<lparr>human_feedback :=
                  Some (fb\<lparr>hf_modifications :=
                    Some (no_modifications\<lparr>m_risks := Some [md]\<rparr>)\<rparr>)\<rparr>) = (h, Some u) \<and>
            u_status u = None \<and> u_error_message u = None \<and>
            u_current_step u = Some ''hitl_revised'')"
  proof -
    assume r: "hf_action fb = ''revised''"
    let ?fb = "fb\<lparr>hf_modifications := Some (no_modifications\<lparr>m_risks := Some [md]\<rparr>)\<rparr>"
    let ?s = "state\<lparr>human_feedback := Some ?fb\<rparr>"
    have 1: "\<forall>a\<in>set (risks ?s). rm_id md \<noteq> Some (r_id (risk_obj h a))" using assms by simp
    have 2: "human_feedback ?s = Some ?fb" by simp
    have 3: "hf_action ?fb = ''revised''" using r by simp
    have 4: "hf_modifications ?fb = Some (no_modifications\<lparr>m_risks := Some [md]\<rparr>)" by simp
    show ?thesis by (rule hitl_only_unmatched [OF 1 2 3 4])
  qed
  show ?thesis using a b c by (intro conjI impI)
qed

theorem unmatched_risk_modification_ignored_witness:
  "risks example_state = [0, Suc 0] \<and>
   rm_id unmatched_mod \<noteq> Some (r_id (risk_obj example_store 0)) \<and>
   rm_id unmatched_mod \<noteq> Some (r_id (risk_obj example_store (Suc 0))) \<and>
   hf_action (feedback ''revised'' ''lower it'' None) = ''revised'' \<and>
   risk_loop unmatched_mod (risks example_state) example_store = example_store \<and>
   (\<exists>u. hitl_node ''2026-01-03T00:00:00'' example_store
           (example_state\<lparr>human_feedback :=
              Some ((feedback ''revised'' ''lower it'' None)\<lparr>hf_modifications :=
                Some (no_modifications\<lparr>m_risks := Some [unmatched_mod]\<rparr>)\<rparr>)\<rparr>) =
         (example_store, Some u) \<and>
       u_status u = None \<and> u_error_message u = None \<and>
       u_current_step u = Some ''hitl_revised'')"
proof -
  have h: "\<forall>a\<in>set (risks example_state).
             rm_id unmatched_mod \<noteq> Some (r_id (risk_obj example_store a))"
    by (simp add: example_state_def example_store_def unmatched_mod_def
        example_risk_0_def example_risk_1_def)
  have r: "hf_action (feedback ''revised'' ''lower it'' None) = ''revised''"
    by (simp add: feedback_def)
  note t = unmatched_risk_modification_ignored [OF h,
      of "feedback ''revised'' ''lower it'' None" "''2026-01-03T00:00:00''"]
  note a = t [THEN conjunct1]
  note c = t [THEN conjunct2, THEN conjunct2, THEN mp, OF r]
  have g: "risks example_state = [0, Suc 0] \<and>
   rm_id unmatched_mod \<noteq> Some (r_id (risk_obj example_store 0)) \<and>
   rm_id unmatched_mod \<noteq> Some (r_id (risk_obj example_store (Suc 0)))"
    by (simp add: example_state_def example_store_def unmatched_mod_def
        example_risk_0_def example_risk_1_def)
  show ?thesis
    by (rule conjI [OF conjunct1 [OF g] conjI [OF conjunct1 [OF conjunct2 [OF g]]
          conjI [OF conjunct2 [OF conjunct2 [OF g]] conjI [OF r conjI [OF a c]]]]])
qed




section \<open>Properties of a run\<close>

lemma hitl_rejected:
  assumes "human_feedback state = Some fb" and "hf_action fb = ''rejected''"
  shows "hitl_node now h state =
     (h, Some (empty_update
                   \<lparr>u_status := Some ''error'',
                    u_error_message := Some (''User rejected findings: '' @ str_opt (hf_comments fb)),
                    u_current_step := Some ''hitl_rejected'',
                    u_updated_at := Some now\<rparr>))"
  using assms by (simp add: hitl_node_def hitl_try_def)

lemma next_node_hitl: "next_node ''hitl'' state = Some ''report_generation''"
  by (simp add: next_node_def conditional_source_def edges_def)

lemma next_node_report: "next_node ''report_generation'' state = Some END"
  by (simp add: next_node_def conditional_source_def edges_def)

lemma next_node_ignores_status:
  "next_node node (state\<lparr>status := s, error_message := e\<rparr>) = next_node node state"
  by (simp add: next_node_def should_review_def)

lemma run_from_hitl:
  assumes "nodes ''hitl'' h state = (h1, Some u1)"
    and "nodes ''report_generation'' h1 (apply_update state u1) = (h2, Some u2)"
  shows "run_graph nodes (Suc (Suc (Suc fuel))) ''hitl'' h state [] =
         Completed h2 (apply_update (apply_update state u1) u2) [''hitl'', ''report_generation'']"
  using assms by (simp add: next_node_hitl next_node_report END_def)

text \<open>
  C2 (as amended). A stage that returns status \<^verbatim>\<open>error\<close> does not stop the run: the
  node that follows does not depend on \<^verbatim>\<open>status\<close> or \<^verbatim>\<open>error_message\<close>, no edge of the
  graph being conditioned on them. In particular, resuming with human feedback of
  action \<^verbatim>\<open>rejected\<close> makes the hitl stage return status \<^verbatim>\<open>error\<close> with the rejection
  comment in \<^verbatim>\<open>error_message\<close>, the merged state has status \<^verbatim>\<open>error\<close>, the node that
  follows is \<^verbatim>\<open>report_generation\<close>, and a run from hitl executes hitl and then
  \<^verbatim>\<open>report_generation\<close>, whatever dict that stage returns.
\<close>

theorem error_status_does_not_halt:
  "next_node node (state\<lparr>status := s, error_message := e\<rparr>) = next_node node state \<and>
   (human_feedback state = Some fb \<and> hf_action fb = ''rejected'' \<longrightarrow>
      (\<exists>u. hitl_node now h state = (h, Some u) \<and>
         u_status u = Some ''error'' \<and>
         u_error_message u = Some (''User rejected findings: '' @ str_opt (hf_comments fb)) \<and>
         status (apply_update state u) = ''error'' \<and>
         next_node ''hitl'' (apply_update state u) = Some ''report_generation'' \<and>
         (nodes ''hitl'' = hitl_node now \<and>
          nodes ''report_generation'' h (apply_update state u) = (h2, Some u2) \<longrightarrow>
            run_graph nodes (Suc (Suc (Suc fuel))) ''hitl'' h state [] =
            Completed h2 (apply_update (apply_update state u) u2)
              [''hitl'', ''report_generation''])))"
proof -
  have r: "human_feedback state = Some fb \<and> hf_action fb = ''rejected'' \<Longrightarrow>
      (\<exists>u. hitl_node now h state = (h, Some u) \<and>
         u_status u = Some ''error'' \<and>
         u_error_message u = Some (''User rejected findings: '' @ str_opt (hf_comments fb)) \<and>
         status (apply_update state u) = ''error'' \<and>
         next_node ''hitl'' (apply_update state u) = Some ''report_generation'' \<and>
         (nodes ''hitl'' = hitl_node now \<and>
          nodes ''report_generation'' h (apply_update state u) = (h2, Some u2) \<longrightarrow>
            run_graph nodes (Suc (Suc (Suc fuel))) ''hitl'' h state [] =
            Completed h2 (apply_update (apply_update state u) u2)
              [''hitl'', ''report_generation'']))"
  proof -
    assume c: "human_feedback state = Some fb \<and> hf_action fb = ''rejected''"
    let ?u = "empty_update
                   \<lparr>u_status := Some ''error'',
                    u_error_message := Some (''User rejected findings: '' @ str_opt (hf_comments fb)),
                    u_current_step := Some ''hitl_rejected'',
                    u_updated_at := Some now\<rparr>"
    have n: "hitl_node now h state = (h, Some ?u)"
      using c by (simp add: hitl_rejected)
    have st: "status (apply_update state ?u) = ''error''"
      by (simp add: apply_update_def overwrite_def)
    have run: "nodes ''hitl'' = hitl_node now \<and>
          nodes ''report_generation'' h (apply_update state ?u) = (h2, Some u2) \<longrightarrow>
            run_graph nodes (Suc (Suc (Suc fuel))) ''hitl'' h state [] =
            Completed h2 (apply_update (apply_update state ?u) u2)
              [''hitl'', ''report_generation'']"
    proof (rule impI)
      assume a: "nodes ''hitl'' = hitl_node now \<and>
          nodes ''report_generation'' h (apply_update state ?u) = (h2, Some u2)"
      have 1: "nodes ''hitl'' h state = (h, Some ?u)" using a n by simp
      show "run_graph nodes (Suc (Suc (Suc fuel))) ''hitl'' h state [] =
            Completed h2 (apply_update (apply_update state ?u) u2)
              [''hitl'', ''report_generation'']"
        by (rule run_from_hitl [where nodes = nodes and h = h and state = state
            and ?h1.0 = h and ?u1.0 = ?u and ?h2.0 = h2 and ?u2.0 = u2, OF 1 conjunct2 [OF a]])
    qed
    have us: "u_status ?u = Some ''error''" by simp
    have ue: "u_error_message ?u =
              Some (''User rejected findings: '' @ str_opt (hf_comments fb))" by simp
    have nx: "next_node ''hitl'' (apply_update state ?u) = Some ''report_generation''"
      by (rule next_node_hitl)
    show ?thesis
      by (rule exI [where x = ?u])
         (rule conjI [OF n conjI [OF us conjI [OF ue conjI [OF st conjI [OF nx run]]]]])
  qed
  show ?thesis
    by (rule conjI [OF next_node_ignores_status impI [OF r]])
qed

theorem error_status_does_not_halt_witness:
  "human_feedback rejected_state = Some (feedback ''rejected'' ''wrong document'' None) \<and>
   hf_action (feedback ''rejected'' ''wrong document'' None) = ''rejected'' \<and>
   (\<exists>u. hitl_node ''2026-01-03T00:00:00'' example_store rejected_state =
          (example_store, Some u) \<and>
      u_status u = Some ''error'' \<and>
      u_error_message u = Some ''User rejected findings: wrong document'' \<and>
      status (apply_update rejected_state u) = ''error'' \<and>
      run_graph ((\<lambda>_. idle_stage)(''hitl'' := hitl_node ''2026-01-03T00:00:00''))
        (Suc (Suc (Suc 0))) ''hitl'' example_store rejected_state [] =
      Completed example_store (apply_update (apply_update rejected_state u) empty_update)
        [''hitl'', ''report_generation''])"
proof -
  let ?fb = "feedback ''rejected'' ''wrong document'' None"
  let ?nodes = "(\<lambda>_. idle_stage)(''hitl'' := hitl_node ''2026-01-03T00:00:00'')"
  have a: "human_feedback rejected_state = Some ?fb" by (simp add: rejected_state_def)
  have b: "hf_action ?fb = ''rejected''" by (simp add: feedback_def)
  have c: "str_opt (hf_comments ?fb) = ''wrong document''"
    by (simp add: feedback_def str_opt_def)
  note t = error_status_does_not_halt [where state = rejected_state and fb = ?fb
      and now = "''2026-01-03T00:00:00''" and h = example_store and nodes = ?nodes
      and ?h2.0 = example_store and ?u2.0 = empty_update and fuel = 0,
      THEN conjunct2, THEN mp, OF conjI [OF a b]]
  from t obtain u where u: "hitl_node ''2026-01-03T00:00:00'' example_store rejected_state =
          (example_store, Some u)"
      "u_status u = Some ''error''"
      "u_error_message u = Some (''User rejected findings: '' @ str_opt (hf_comments ?fb))"
      "status (apply_update rejected_state u) = ''error''"
      "?nodes ''hitl'' = hitl_node ''2026-01-03T00:00:00'' \<and>
       ?nodes ''report_generation'' example_store (apply_update rejected_state u) =
         (example_store, Some empty_update) \<longrightarrow>
       run_graph ?nodes (Suc (Suc (Suc 0))) ''hitl'' example_store rejected_state [] =
       Completed example_store (apply_update (apply_update rejected_state u) empty_update)
         [''hitl'', ''report_generation'']"
    by (elim exE conjE)
  have hyp: "?nodes ''hitl'' = hitl_node ''2026-01-03T00:00:00'' \<and>
       ?nodes ''report_generation'' example_store (apply_update rejected_state u) =
         (example_store, Some empty_update)"
    by (simp add: idle_stage_def)
  note run = u(5) [THEN mp, OF hyp]
  have ue: "u_error_message u = Some ''User rejected findings: wrong document''"
    using u(3) unfolding c by simp
  have e: "\<exists>u. hitl_node ''2026-01-03T00:00:00'' example_store rejected_state =
          (example_store, Some u) \<and>
      u_status u = Some ''error'' \<and>
      u_error_message u = Some ''User rejected findings: wrong document'' \<and>
      status (apply_update rejected_state u) = ''error'' \<and>
      run_graph ?nodes (Suc (Suc (Suc 0))) ''hitl'' example_store rejected_state [] =
      Completed example_store (apply_update (apply_update rejected_state u) empty_update)
        [''hitl'', ''report_generation'']"
    by (rule exI [where x = u])
       (rule conjI [OF u(1) conjI [OF u(2) conjI [OF ue conjI [OF u(4) run]]]])
  show ?thesis by (rule conjI [OF a conjI [OF b e]])
qed

text \<open>
  C2 as stated fails: resumed with action \<^verbatim>\<open>rejected\<close>, the hitl stage returns status
  \<^verbatim>\<open>error\<close> with the comment in \<^verbatim>\<open>error_message\<close>, and the node the graph runs next on
  the merged state is \<^verbatim>\<open>report_generation\<close>, not the end of the run.
\<close>

theorem rejected_resume_counterexample:
  "human_feedback rejected_state = Some (feedback ''rejected'' ''wrong document'' None) \<and>
   map_option u_status
     (snd (hitl_node ''2026-01-03T00:00:00'' example_store rejected_state)) =
     Some (Some ''error'') \<and>
   map_option u_error_message
     (snd (hitl_node ''2026-01-03T00:00:00'' example_store rejected_state)) =
     Some (Some ''User rejected findings: wrong document'') \<and>
   map_option (\<lambda>u. status (apply_update rejected_state u))
     (snd (hitl_node ''2026-01-03T00:00:00'' example_store rejected_state)) =
     Some ''error'' \<and>
   map_option (\<lambda>u. next_node ''hitl'' (apply_update rejected_state u))
     (snd (hitl_node ''2026-01-03T00:00:00'' example_store rejected_state)) =
     Some (Some ''report_generation'') \<and>
   ''report_generation'' \<noteq> END"
proof -
  let ?fb = "feedback ''rejected'' ''wrong document'' None"
  have a: "human_feedback rejected_state = Some ?fb" by (simp add: rejected_state_def)
  have b: "hf_action ?fb = ''rejected''" by (simp add: feedback_def)
  have c: "str_opt (hf_comments ?fb) = ''wrong document''"
    by (simp add: feedback_def str_opt_def)
  show ?thesis
    using a
    by (simp add: hitl_rejected [OF a b] c next_node_hitl apply_update_def overwrite_def
        empty_update_def END_def)
qed

end
